theory Spec2Isabelle
  imports Complex_Main "HOL-Library.Sublist"
begin

section \<open>Configuration\<close>

text \<open>
  The settings record that \<^verbatim>\<open>parse_args\<close> returns. Python integers are unbounded, so the
  integer options are \<open>int\<close>; the float options are idealised as reals.
\<close>

record args =
  batch_size :: int
  lr :: real
  momentum :: real
  weight_decay :: real
  epochs_after_deficit :: int
  gamma :: real
  project :: string
  run_name :: string
  log_dir :: string
  checkpoint_dir :: string
  num_workers :: int
  precision :: string
  deficit_epoch :: int

text \<open>The value of \<^verbatim>\<open>parse_args()\<close> on an empty command line: every option at its default.\<close>

definition default_args :: args where
  "default_args =
     \<lparr> batch_size = 128, lr = 1 / 10, momentum = 9 / 10, weight_decay = 5 / 10000,
       epochs_after_deficit = 160, gamma = 1 / 10,
       project = ''CriticalPeriodCifar10'', run_name = ''baseline'',
       log_dir = ''logs/'', checkpoint_dir = ''checkpoints/'',
       num_workers = 8, precision = ''16'', deficit_epoch = 0 \<rparr>"

section \<open>Transform pipelines\<close>

text \<open>
  One constructor per transform class used by the script. \<^verbatim>\<open>RandomHorizontalFlip\<close> carries
  its probability \<open>p\<close>, \<^verbatim>\<open>RandomAffine\<close> its \<open>degrees\<close> and \<open>translate\<close> fractions,
  \<^verbatim>\<open>Normalize\<close> its per-channel mean and std. \<^verbatim>\<open>DownUpSampleTransform\<close> has no fields.
\<close>

datatype transform =
    RandomHorizontalFlip real
  | RandomAffine real "real \<times> real"
  | ToTensor
  | DownUpSampleTransform
  | Normalize "real list" "real list"

text \<open>\<^verbatim>\<open>isinstance(t, DownUpSampleTransform)\<close>\<close>

fun isinstance_DownUpSampleTransform :: "transform \<Rightarrow> bool" where
  "isinstance_DownUpSampleTransform DownUpSampleTransform = True"
| "isinstance_DownUpSampleTransform _ = False"

text \<open>
  \<^verbatim>\<open>transforms.RandomHorizontalFlip()\<close> is called without arguments; the library's default
  probability is 0.5.
\<close>

definition RandomHorizontalFlip_default :: transform where
  "RandomHorizontalFlip_default = RandomHorizontalFlip (5 / 10)"

definition cifar10_mean :: "real list" where
  "cifar10_mean = [4914 / 10000, 4822 / 10000, 4465 / 10000]"

definition cifar10_std :: "real list" where
  "cifar10_std = [247 / 1000, 243 / 1000, 261 / 1000]"

definition train_transforms :: "transform list" where
  "train_transforms =
     [ RandomHorizontalFlip_default,
       RandomAffine 0 (4 / 32, 4 / 32),
       ToTensor,
       DownUpSampleTransform,
       Normalize cifar10_mean cifar10_std ]"

definition test_transforms :: "transform list" where
  "test_transforms =
     [ ToTensor,
       Normalize cifar10_mean cifar10_std ]"

text \<open>
  What the library's \<^verbatim>\<open>RandomAffine\<close> does with its \<open>translate\<close> fractions on an image of
  the given width and height: the horizontal shift is drawn from \<open>[-a * width, a * width]\<close>
  and the vertical one from \<open>[-b * height, b * height]\<close>.
\<close>

fun max_translation :: "transform \<Rightarrow> nat \<times> nat \<Rightarrow> real \<times> real" where
  "max_translation (RandomAffine d (a, b)) (width, height) =
     (a * real width, b * real height)"
| "max_translation _ _ = (0, 0)"

text \<open>The augmentation steps: those that change the image at random.\<close>

fun is_augmentation :: "transform \<Rightarrow> bool" where
  "is_augmentation (RandomHorizontalFlip p) = True"
| "is_augmentation (RandomAffine d tr) = True"
| "is_augmentation _ = False"

section \<open>Program state\<close>

text \<open>
  \<^verbatim>\<open>Compose\<close> objects live in a store, addressed by their index: a dataset holds a reference
  to its pipeline object (or Python's \<open>None\<close>), so that replacing a reference and mutating
  an object in place are different things in the model, as they are in the program.
  Allocation appends to the store.
\<close>

record dataset =
  root_dir :: string
  train :: bool
  transform :: "nat option"

record world =
  composes :: "transform list list"
  train_dataset :: dataset
  val_dataset :: dataset
  hparams :: args
  parameters :: "real list"
  stdout :: "string list"

datatype error =
  AttributeError | ValueError | IndexError | RuntimeError | MisconfigurationException

datatype dataset_ref = TrainDataset | ValDataset

fun get_dataset :: "dataset_ref \<Rightarrow> world \<Rightarrow> dataset" where
  "get_dataset TrainDataset w = train_dataset w"
| "get_dataset ValDataset w = val_dataset w"

fun set_transform :: "dataset_ref \<Rightarrow> nat option \<Rightarrow> world \<Rightarrow> world" where
  "set_transform TrainDataset r w = w\<lparr>train_dataset := (train_dataset w)\<lparr>transform := r\<rparr>\<rparr>"
| "set_transform ValDataset r w = w\<lparr>val_dataset := (val_dataset w)\<lparr>transform := r\<rparr>\<rparr>"

text \<open>\<^verbatim>\<open>dataset.transform.transforms\<close>: the step list of the pipeline object a dataset refers to.\<close>

definition transforms_of :: "world \<Rightarrow> dataset \<Rightarrow> transform list option" where
  "transforms_of w d =
     (case transform d of
        None \<Rightarrow> None
      | Some r \<Rightarrow> (if r < length (composes w) then Some (composes w ! r) else None))"

text \<open>A dataset's pipeline reference is \<open>None\<close> or the address of an object of the store.\<close>

definition allocated :: "world \<Rightarrow> dataset \<Rightarrow> bool" where
  "allocated w d = (case transform d of None \<Rightarrow> True | Some r \<Rightarrow> r < length (composes w))"

text \<open>Python's \<^verbatim>\<open>str\<close> of an integer, for the f-string of the notice.\<close>

fun str_nat :: "nat \<Rightarrow> string" where
  "str_nat n =
     (if n < 10 then [''0123456789'' ! n]
      else str_nat (n div 10) @ [''0123456789'' ! (n mod 10)])"

definition str_int :: "int \<Rightarrow> string" where
  "str_int i = (if i < 0 then CHR ''-'' # str_nat (nat (- i)) else str_nat (nat i))"

definition print :: "string \<Rightarrow> world \<Rightarrow> world" where
  "print s w = w\<lparr>stdout := stdout w @ [s]\<rparr>"

section \<open>The deficit-removal callback\<close>

record callback =
  t0 :: int
  self_train_dataset :: dataset_ref

definition RemoveCataractTransformCallback :: "int \<Rightarrow> dataset_ref \<Rightarrow> callback" where
  "RemoveCataractTransformCallback t d = \<lparr> t0 = t, self_train_dataset = d \<rparr>"

text \<open>
  The list comprehension
  \<^verbatim>\<open>[t for t in ... if not isinstance(t, DownUpSampleTransform)]\<close>, as the loop it is.
\<close>

fun new_transforms :: "transform list \<Rightarrow> transform list" where
  "new_transforms [] = []"
| "new_transforms (t # ts) =
     (if \<not> isinstance_DownUpSampleTransform t then t # new_transforms ts
      else new_transforms ts)"

text \<open>
  \<^verbatim>\<open>on_train_epoch_start(self, trainer, pl_module)\<close>. Of the trainer only
  \<^verbatim>\<open>current_epoch\<close> is read; the module is not touched, its weights are the
  \<open>parameters\<close> of the state. The new \<^verbatim>\<open>Compose\<close> object is allocated at the end of the
  store and the dataset's reference is redirected to it.
\<close>

definition on_train_epoch_start :: "callback \<Rightarrow> int \<Rightarrow> world \<Rightarrow> error + world" where
  "on_train_epoch_start self current_epoch w =
     (if current_epoch = t0 self then
        (case transforms_of w (get_dataset (self_train_dataset self) w) of
           None \<Rightarrow> Inl AttributeError
         | Some ts \<Rightarrow>
             Inr (print (''Removed DownUpSampleTransform at epoch '' @ str_int (t0 self) @ ''.'')
                   (set_transform (self_train_dataset self) (Some (length (composes w)))
                      (w\<lparr>composes := composes w @ [new_transforms ts]\<rparr>))))
      else Inr w)"

section \<open>The training driver's configuration\<close>

datatype logger = WandbLogger string string | CSVLogger string string

text \<open>
  The framework's \<^verbatim>\<open>Trainer\<close> as the script configures it: the keyword arguments that the
  call passes, and the two other limits of a run, \<open>max_steps\<close> and \<open>max_time\<close>, which the
  call leaves at the library's defaults (\<open>-1\<close>, no step limit, and \<open>None\<close>, no time limit).
\<close>

record trainer_config =
  max_epochs :: int
  max_steps :: int
  max_time :: "string option"
  accelerator :: string
  devices :: "int option"
  loggers :: "logger list"
  enable_checkpointing :: bool
  trainer_precision :: string
  callbacks :: "callback list"

definition wandb_logger :: "args \<Rightarrow> logger" where
  "wandb_logger a = WandbLogger (run_name a) (project a)"

definition csv_logger :: "args \<Rightarrow> logger" where
  "csv_logger a = CSVLogger (run_name a) (log_dir a)"

text \<open>\<open>cuda_is_available\<close> stands for \<^verbatim>\<open>torch.cuda.is_available()\<close>.\<close>

definition trainer :: "bool \<Rightarrow> args \<Rightarrow> trainer_config" where
  "trainer cuda_is_available a =
     \<lparr> max_epochs = deficit_epoch a + epochs_after_deficit a,
       max_steps = - 1,
       max_time = None,
       accelerator = (if cuda_is_available then ''gpu'' else ''cpu''),
       devices = (if cuda_is_available then Some 1 else None),
       loggers = [wandb_logger a, csv_logger a],
       enable_checkpointing = False,
       trainer_precision = precision a,
       callbacks = [RemoveCataractTransformCallback (deficit_epoch a) TrainDataset] \<rparr>"

text \<open>
  The state the script has built when \<^verbatim>\<open>trainer.fit\<close> is called: the two \<^verbatim>\<open>Compose\<close>
  objects, the two datasets referring to them, the settings, and the network's initial
  weights \<open>ws\<close> (drawn at random by the library).
\<close>

definition initial_world :: "args \<Rightarrow> real list \<Rightarrow> world" where
  "initial_world a ws =
     \<lparr> composes = [train_transforms, test_transforms],
       train_dataset = \<lparr> root_dir = ''./data'', train = True, transform = Some 0 \<rparr>,
       val_dataset = \<lparr> root_dir = ''./data'', train = False, transform = Some 1 \<rparr>,
       hparams = a,
       parameters = ws,
       stdout = [] \<rparr>"




section \<open>Optimizer and learning-rate schedule\<close>

text \<open>
  \<^verbatim>\<open>configure_optimizers\<close> as the source writes it. The library's \<^verbatim>\<open>SGD\<close> constructor
  refuses a negative learning rate, momentum or weight decay; that check is the library's
  and is not part of this definition.
\<close>

datatype optimizer = SGD real real real

datatype scheduler = StepLR nat real

definition configure_optimizers :: "args \<Rightarrow> optimizer list \<times> scheduler list" where
  "configure_optimizers hp =
     ([SGD (lr hp) (momentum hp) (weight_decay hp)], [StepLR 1 (97 / 100)])"

text \<open>
  The library's \<^verbatim>\<open>StepLR\<close>, stepped by the driver once at the end of every epoch: the
  epoch counter advances, and the rate is multiplied by \<open>gamma\<close> whenever the counter is a
  multiple of \<open>step_size\<close>.
\<close>

record schedule_state =
  last_epoch :: nat
  current_lr :: real

fun scheduler_step :: "scheduler \<Rightarrow> schedule_state \<Rightarrow> schedule_state" where
  "scheduler_step (StepLR step_size g) s =
     (let e = last_epoch s + 1
      in \<lparr> last_epoch = e,
           current_lr = (if step_size dvd e then current_lr s * g else current_lr s) \<rparr>)"

fun initial_lr :: "optimizer \<Rightarrow> real" where
  "initial_lr (SGD l m wd) = l"

text \<open>The rate in force during epoch \<open>n\<close> (after \<open>n\<close> steps of the schedule).\<close>

definition lr_at_epoch :: "args \<Rightarrow> nat \<Rightarrow> real" where
  "lr_at_epoch hp n =
     (case configure_optimizers hp of
        (opt # _, sch # _) \<Rightarrow>
          current_lr ((scheduler_step sch ^^ n) \<lparr> last_epoch = 0, current_lr = initial_lr opt \<rparr>)
      | _ \<Rightarrow> 0)"

section \<open>Tensors\<close>

text \<open>
  A tensor is a view on a storage: the address of its flat, row-major data in the tensor
  store and its shape. \<^verbatim>\<open>unsqueeze\<close> and \<^verbatim>\<open>squeeze\<close> return views on the same storage;
  \<^verbatim>\<open>F.interpolate\<close> allocates a new storage for its result. Pixel values are idealised as
  reals: rounding of floating-point arithmetic is not modelled.
\<close>

record tensor =
  storage :: nat
  shape :: "nat list"

type_synonym tensor_store = "real list list"

definition unsqueeze0 :: "tensor \<Rightarrow> tensor" where
  "unsqueeze0 t = t\<lparr>shape := 1 # shape t\<rparr>"

definition squeeze0 :: "tensor \<Rightarrow> tensor" where
  "squeeze0 t =
     (case shape t of
        d # ds \<Rightarrow> (if d = 1 then t\<lparr>shape := ds\<rparr> else t)
      | [] \<Rightarrow> t)"

text \<open>
  The library's bilinear kernel with \<open>align_corners = False\<close> and a given output size:
  output index \<open>dst\<close> reads the input at \<open>scale * (dst + 1/2) - 1/2\<close>, clamped at 0, where
  \<open>scale = in_size / out_size\<close>; the two neighbours of that position are blended linearly.
\<close>

definition source_index :: "nat \<Rightarrow> nat \<Rightarrow> nat \<Rightarrow> real" where
  "source_index in_size out_size dst =
     max 0 (real in_size / real out_size * (real dst + 1 / 2) - 1 / 2)"

definition index0 :: "nat \<Rightarrow> nat \<Rightarrow> nat \<Rightarrow> nat" where
  "index0 in_size out_size dst = nat \<lfloor>source_index in_size out_size dst\<rfloor>"

definition index1 :: "nat \<Rightarrow> nat \<Rightarrow> nat \<Rightarrow> nat" where
  "index1 in_size out_size dst =
     (let i0 = index0 in_size out_size dst
      in i0 + (if i0 < in_size - 1 then 1 else 0))"

definition lambda1 :: "nat \<Rightarrow> nat \<Rightarrow> nat \<Rightarrow> real" where
  "lambda1 in_size out_size dst =
     source_index in_size out_size dst - real (index0 in_size out_size dst)"

definition bilinear_pixel ::
  "real list \<Rightarrow> nat \<Rightarrow> nat \<Rightarrow> nat \<Rightarrow> nat \<Rightarrow> nat \<Rightarrow> nat \<Rightarrow> nat \<Rightarrow> real" where
  "bilinear_pixel xs base ih iw oh ow oy ox =
     (let y0 = index0 ih oh oy; y1 = index1 ih oh oy; ly1 = lambda1 ih oh oy; ly0 = 1 - ly1;
          x0 = index0 iw ow ox; x1 = index1 iw ow ox; lx1 = lambda1 iw ow ox; lx0 = 1 - lx1
      in ly0 * (lx0 * xs ! (base + y0 * iw + x0) + lx1 * xs ! (base + y0 * iw + x1))
       + ly1 * (lx0 * xs ! (base + y1 * iw + x0) + lx1 * xs ! (base + y1 * iw + x1)))"

text \<open>All \<open>planes\<close> (batch times channels) image planes of \<open>ih \<times> iw\<close> resampled to \<open>oh \<times> ow\<close>.\<close>

definition upsample_bilinear2d :: "nat \<Rightarrow> nat \<Rightarrow> nat \<Rightarrow> nat \<Rightarrow> nat \<Rightarrow> real list \<Rightarrow> real list" where
  "upsample_bilinear2d planes ih iw oh ow xs =
     concat (map (\<lambda>p.
       concat (map (\<lambda>oy.
         map (\<lambda>ox. bilinear_pixel xs (p * ih * iw) ih iw oh ow oy ox) [0..<ow])
       [0..<oh]))
     [0..<planes])"

text \<open>
  \<^verbatim>\<open>F.interpolate(t, size=(oh, ow), mode='bilinear', align_corners=False)\<close>. Bilinear mode
  with a size of two numbers takes a 4-dimensional input only (any other rank is a
  \<^verbatim>\<open>ValueError\<close>), and the library rejects an input without channels or with an empty height
  or width, as it does an empty output size. The input's storage is
  read, never written.
\<close>

definition interpolate :: "tensor_store \<Rightarrow> tensor \<Rightarrow> nat \<times> nat \<Rightarrow> error + tensor_store \<times> tensor" where
  "interpolate h t out_size =
     (case (shape t, out_size) of
        ([n, c, ih, iw], (oh, ow)) \<Rightarrow>
          (if c = 0 \<or> ih = 0 \<or> iw = 0 \<or> oh = 0 \<or> ow = 0 then Inl RuntimeError
           else if length h \<le> storage t then Inl RuntimeError
           else Inr (h @ [upsample_bilinear2d (n * c) ih iw oh ow (h ! storage t)],
                     \<lparr> storage = length h, shape = [n, c, oh, ow] \<rparr>))
      | _ \<Rightarrow> Inl ValueError)"

section \<open>The blur-resample transform\<close>

text \<open>\<^verbatim>\<open>DownUpSampleTransform.__call__(self, img)\<close>; \<open>self\<close> has no attributes.\<close>

definition DownUpSampleTransform_call :: "tensor_store \<Rightarrow> tensor \<Rightarrow> error + tensor_store \<times> tensor" where
  "DownUpSampleTransform_call h img =
     (case interpolate h (unsqueeze0 img) (8, 8) of
        Inl e \<Rightarrow> Inl e
      | Inr (h1, img1) \<Rightarrow>
          (case interpolate h1 img1 (32, 32) of
             Inl e \<Rightarrow> Inl e
           | Inr (h2, img2) \<Rightarrow> Inr (h2, squeeze0 img2)))"

text \<open>
  A well-formed \<open>C \<times> H \<times> W\<close> image tensor of a store: its storage exists and holds exactly
  \<open>C * H * W\<close> values, and neither dimension is empty.
\<close>

definition image_tensor :: "tensor_store \<Rightarrow> tensor \<Rightarrow> nat \<Rightarrow> nat \<Rightarrow> nat \<Rightarrow> bool" where
  "image_tensor h t C H W \<longleftrightarrow>
     shape t = [C, H, W] \<and> 0 < C \<and> 0 < H \<and> 0 < W \<and>
     storage t < length h \<and> length (h ! storage t) = C * H * W"

definition data_of :: "tensor_store \<Rightarrow> tensor \<Rightarrow> real list" where
  "data_of h t = h ! storage t"

text \<open>The shape of the tensor a call returned, if it returned one.\<close>

fun result_shape :: "error + tensor_store \<times> tensor \<Rightarrow> nat list option" where
  "result_shape (Inr (h, t)) = Some (shape t)"
| "result_shape (Inl e) = None"

section \<open>The training module\<close>

text \<open>
  A scalar metric: a real, or the not-a-number that the mean of an empty tensor is.
\<close>

datatype scalar = NaN | Value real

definition mean :: "real list \<Rightarrow> scalar" where
  "mean xs = (if xs = [] then NaN else Value (sum_list xs / real (length xs)))"

text \<open>
  The library's \<^verbatim>\<open>argmax\<close> of one row of logits: the index of the first maximal value.
\<close>

fun argmax_from :: "nat \<Rightarrow> nat \<Rightarrow> real \<Rightarrow> real list \<Rightarrow> nat" where
  "argmax_from i best bv [] = best"
| "argmax_from i best bv (x # xs) =
     (if bv < x then argmax_from (i + 1) i x xs else argmax_from (i + 1) best bv xs)"

fun argmax :: "real list \<Rightarrow> nat" where
  "argmax [] = 0"
| "argmax (x # xs) = argmax_from 1 0 x xs"

text \<open>
  What top-1 prediction means: \<open>k\<close> is the predicted class of a row of logits when it is the
  first position that holds the row's greatest value.
\<close>

definition first_max :: "real list \<Rightarrow> nat \<Rightarrow> bool" where
  "first_max row k \<longleftrightarrow>
     k < length row \<and> (\<forall>j < length row. row ! j \<le> row ! k) \<and> (\<forall>j < k. row ! j < row ! k)"

text \<open>
  A well-formed batch of network outputs and labels: one row of \<open>C\<close> logits per label, and
  every label a class index below \<open>C\<close>.
\<close>

definition logits_for :: "real list list \<Rightarrow> int list \<Rightarrow> nat \<Rightarrow> bool" where
  "logits_for outputs targets C \<longleftrightarrow>
     length outputs = length targets \<and> 0 < C \<and>
     (\<forall>row \<in> set outputs. length row = C) \<and>
     (\<forall>t \<in> set targets. 0 \<le> t \<and> t < int C)"

text \<open>\<^verbatim>\<open>outputs.argmax(dim=1)\<close>; the library refuses to reduce over an empty dimension.\<close>

definition argmax_dim1 :: "real list list \<Rightarrow> error + nat list" where
  "argmax_dim1 outputs =
     (if list_ex (\<lambda>row. row = []) outputs then Inl IndexError else Inr (map argmax outputs))"

text \<open>
  The elementwise \<^verbatim>\<open>==\<close> of the predicted classes with the targets. Operands of equal
  length are compared position by position; an operand of length 1 is broadcast against
  the other; any other pair of lengths is an error.
\<close>

definition eq_elementwise :: "nat list \<Rightarrow> int list \<Rightarrow> error + bool list" where
  "eq_elementwise preds targets =
     (if length preds = length targets then Inr (map (\<lambda>(p, t). int p = t) (zip preds targets))
      else if length targets = 1 then Inr (map (\<lambda>p. int p = hd targets) preds)
      else if length preds = 1 then Inr (map (\<lambda>t. int (hd preds) = t) targets)
      else Inl RuntimeError)"

definition to_float :: "bool list \<Rightarrow> real list" where
  "to_float bs = map of_bool bs"

text \<open>
  The library's \<^verbatim>\<open>nn.CrossEntropyLoss()\<close> with its defaults (mean reduction, targets equal
  to \<open>-100\<close> ignored): the mean over the samples kept of the negative log of the softmax
  probability of the target class.
\<close>

definition sample_loss :: "real list \<times> int \<Rightarrow> real" where
  "sample_loss = (\<lambda>(row, t). - ln (exp (row ! nat t) / sum_list (map exp row)))"

definition CrossEntropyLoss :: "real list list \<Rightarrow> int list \<Rightarrow> error + scalar" where
  "CrossEntropyLoss outputs targets =
     (if length outputs \<noteq> length targets then Inl ValueError
      else if list_ex (\<lambda>(row, t). t \<noteq> - 100 \<and> (t < 0 \<or> int (length row) \<le> t)) (zip outputs targets)
        then Inl IndexError
      else Inr (mean (map sample_loss (filter (\<lambda>(row, t). t \<noteq> - 100) (zip outputs targets)))))"

text \<open>
  The module: its settings, the network as the function from an image batch to one row of
  logits per image that it computes with its current weights, the loss function, and the
  metrics logged so far (name, value, \<open>prog_bar\<close> flag).
\<close>

record 'x classifier =
  saved_hyperparameters :: args
  model :: "'x \<Rightarrow> real list list"
  criterion :: "real list list \<Rightarrow> int list \<Rightarrow> error + scalar"
  logged :: "(string \<times> scalar \<times> bool) list"

text \<open>\<^verbatim>\<open>__init__\<close>; \<open>net\<close> stands for the network that \<^verbatim>\<open>create_modified_resnet18()\<close> builds.\<close>

definition CIFAR10Classifier :: "args \<Rightarrow> ('x \<Rightarrow> real list list) \<Rightarrow> 'x classifier" where
  "CIFAR10Classifier a net =
     \<lparr> saved_hyperparameters = a, model = net, criterion = CrossEntropyLoss, logged = [] \<rparr>"

definition forward :: "'x classifier \<Rightarrow> 'x \<Rightarrow> real list list" where
  "forward self x = model self x"

definition self_log :: "string \<Rightarrow> scalar \<Rightarrow> bool \<Rightarrow> 'x classifier \<Rightarrow> 'x classifier" where
  "self_log name v prog_bar self = self\<lparr>logged := logged self @ [(name, v, prog_bar)]\<rparr>"

text \<open>\<^verbatim>\<open>(outputs.argmax(dim=1) == targets).float().mean()\<close>\<close>

definition batch_accuracy :: "real list list \<Rightarrow> int list \<Rightarrow> error + scalar" where
  "batch_accuracy outputs targets =
     (case argmax_dim1 outputs of
        Inl e \<Rightarrow> Inl e
      | Inr preds \<Rightarrow>
          (case eq_elementwise preds targets of
             Inl e \<Rightarrow> Inl e
           | Inr hits \<Rightarrow> Inr (mean (to_float hits))))"

definition training_step ::
  "'x classifier \<Rightarrow> 'x \<times> int list \<Rightarrow> nat \<Rightarrow> error + scalar \<times> 'x classifier" where
  "training_step self batch batch_idx =
     (case batch of (images, targets) \<Rightarrow>
        (let outputs = forward self images in
         case criterion self outputs targets of
           Inl e \<Rightarrow> Inl e
         | Inr loss \<Rightarrow>
             (case batch_accuracy outputs targets of
                Inl e \<Rightarrow> Inl e
              | Inr acc \<Rightarrow>
                  Inr (loss, self_log ''train_acc'' acc True
                               (self_log ''train_loss'' loss False self)))))"

definition validation_step ::
  "'x classifier \<Rightarrow> 'x \<times> int list \<Rightarrow> nat \<Rightarrow> error + unit \<times> 'x classifier" where
  "validation_step self batch batch_idx =
     (case batch of (images, targets) \<Rightarrow>
        (let outputs = forward self images in
         case criterion self outputs targets of
           Inl e \<Rightarrow> Inl e
         | Inr loss \<Rightarrow>
             (case batch_accuracy outputs targets of
                Inl e \<Rightarrow> Inl e
              | Inr acc \<Rightarrow>
                  Inr ((), self_log ''val_acc'' acc True
                             (self_log ''val_loss'' loss True self)))))"

section \<open>The deficit-removal callback: properties\<close>

lemma new_transforms_filter:
  "new_transforms ts = filter (\<lambda>t. \<not> isinstance_DownUpSampleTransform t) ts"
  by (induction ts) simp_all

lemma transforms_of_fired:
  "transforms_of
     (print s (set_transform d (Some (length (composes w))) (w\<lparr>composes := composes w @ [ts']\<rparr>)))
     (get_dataset d (print s (set_transform d (Some (length (composes w))) (w\<lparr>composes := composes w @ [ts']\<rparr>))))
   = Some ts'"
  by (cases d) (simp_all add: transforms_of_def print_def)

lemma hook_not_t0: "current_epoch \<noteq> t0 self \<Longrightarrow> on_train_epoch_start self current_epoch w = Inr w"
  by (simp add: on_train_epoch_start_def)

lemma hook_at_t0:
  assumes "transforms_of w (get_dataset (self_train_dataset self) w) = Some ts"
  shows "on_train_epoch_start self (t0 self) w =
     Inr (print (''Removed DownUpSampleTransform at epoch '' @ str_int (t0 self) @ ''.'')
           (set_transform (self_train_dataset self) (Some (length (composes w)))
              (w\<lparr>composes := composes w @ [new_transforms ts]\<rparr>)))"
  using assms by (simp add: on_train_epoch_start_def)

lemma hook_result_cases:
  assumes "on_train_epoch_start self e w = Inr w'"
  shows "(e \<noteq> t0 self \<and> w' = w) \<or>
         (e = t0 self \<and> (\<exists>ts. transforms_of w (get_dataset (self_train_dataset self) w) = Some ts \<and>
            w' = print (''Removed DownUpSampleTransform at epoch '' @ str_int (t0 self) @ ''.'')
                  (set_transform (self_train_dataset self) (Some (length (composes w)))
                     (w\<lparr>composes := composes w @ [new_transforms ts]\<rparr>))))"
  using assms by (auto simp: on_train_epoch_start_def split: if_splits option.splits)

lemma initial_train_pipeline:
  "transforms_of (initial_world a ws) (get_dataset TrainDataset (initial_world a ws)) = Some train_transforms"
  by (simp add: transforms_of_def initial_world_def)

lemma script_callback:
  "callbacks (trainer cuda a) = [\<lparr> t0 = deficit_epoch a, self_train_dataset = TrainDataset \<rparr>]"
  by (simp add: trainer_def RemoveCataractTransformCallback_def)

text \<open>
  Claim C1. The hook, called at the start of an epoch on a state whose training dataset
  has a pipeline, never fails; it fires (allocates the new pipeline, redirects the
  dataset's reference to it and prints its notice) when the current epoch equals \<open>t0\<close>,
  and for every other epoch, smaller or larger, it returns the state as it was. The state
  changes exactly when the epoch equals \<open>t0\<close>.
\<close>
theorem hook_fires_exactly_at_t0:
  assumes "transforms_of w (get_dataset (self_train_dataset self) w) = Some ts"
  shows "\<exists>w'. on_train_epoch_start self current_epoch w = Inr w' \<and>
           (current_epoch = t0 self \<longrightarrow>
              composes w' = composes w @ [new_transforms ts] \<and>
              transform (get_dataset (self_train_dataset self) w') = Some (length (composes w)) \<and>
              stdout w' = stdout w @ [''Removed DownUpSampleTransform at epoch '' @ str_int (t0 self) @ ''.'']) \<and>
           (current_epoch \<noteq> t0 self \<longrightarrow> w' = w) \<and>
           (w' \<noteq> w \<longleftrightarrow> current_epoch = t0 self)"
proof (cases "current_epoch = t0 self")
  case True
  let ?w' = "print (''Removed DownUpSampleTransform at epoch '' @ str_int (t0 self) @ ''.'')
           (set_transform (self_train_dataset self) (Some (length (composes w)))
              (w\<lparr>composes := composes w @ [new_transforms ts]\<rparr>))"
  have run: "on_train_epoch_start self current_epoch w = Inr ?w'"
    using True hook_at_t0 [OF assms] by simp
  have c: "composes ?w' = composes w @ [new_transforms ts]"
    by (cases "self_train_dataset self") (simp_all add: print_def)
  have t: "transform (get_dataset (self_train_dataset self) ?w') = Some (length (composes w))"
    by (cases "self_train_dataset self") (simp_all add: print_def)
  have s: "stdout ?w' = stdout w @ [''Removed DownUpSampleTransform at epoch '' @ str_int (t0 self) @ ''.'']"
    by (cases "self_train_dataset self") (simp_all add: print_def)
  have "length (composes ?w') \<noteq> length (composes w)" using c by simp
  then have ne: "?w' \<noteq> w" by auto
  show ?thesis using run c t s ne True by simp
next
  case False
  then show ?thesis using hook_not_t0 [of current_epoch self w] by simp
qed

theorem hook_fires_exactly_at_t0_witness:
  "on_train_epoch_start (hd (callbacks (trainer False default_args))) 0 (initial_world default_args [])
     \<noteq> Inr (initial_world default_args []) \<and>
   on_train_epoch_start (hd (callbacks (trainer False default_args))) 1 (initial_world default_args [])
     = Inr (initial_world default_args []) \<and>
   on_train_epoch_start (hd (callbacks (trainer False default_args))) (- 1) (initial_world default_args [])
     = Inr (initial_world default_args [])"
  using hook_fires_exactly_at_t0 [of "initial_world default_args []" "hd (callbacks (trainer False default_args))" train_transforms 0]
    hook_fires_exactly_at_t0 [of "initial_world default_args []" "hd (callbacks (trainer False default_args))" train_transforms 1]
    hook_fires_exactly_at_t0 [of "initial_world default_args []" "hd (callbacks (trainer False default_args))" train_transforms "- 1"]
    initial_train_pipeline [of default_args "[]"]
  by (auto simp: script_callback default_args_def)

lemma new_transforms_no_blur: "\<not> list_ex isinstance_DownUpSampleTransform (new_transforms ts)"
  by (induction ts) simp_all

lemma new_transforms_subseq: "subseq (new_transforms ts) ts"
  by (simp add: new_transforms_filter)

lemma new_transforms_id:
  "\<not> list_ex isinstance_DownUpSampleTransform ts \<Longrightarrow> new_transforms ts = ts"
  by (induction ts) simp_all

lemma new_transforms_train:
  "new_transforms train_transforms =
     [RandomHorizontalFlip_default, RandomAffine 0 (4 / 32, 4 / 32), ToTensor,
      Normalize cifar10_mean cifar10_std]"
  by (simp add: train_transforms_def RandomHorizontalFlip_default_def)

text \<open>
  Claim C2. When the hook fires, the training dataset's pipeline becomes the previous one
  without its blur-resample steps: every other step is kept, in the same order. From the
  script's initial state the result is flip, translate, to-tensor, normalize.
\<close>
theorem firing_drops_blur_keeps_order:
  assumes "transforms_of w (get_dataset (self_train_dataset self) w) = Some ts"
  shows "(\<exists>w'. on_train_epoch_start self (t0 self) w = Inr w' \<and>
            transforms_of w' (get_dataset (self_train_dataset self) w')
              = Some (filter (\<lambda>t. \<not> isinstance_DownUpSampleTransform t) ts) \<and>
            \<not> list_ex isinstance_DownUpSampleTransform
                 (the (transforms_of w' (get_dataset (self_train_dataset self) w'))) \<and>
            subseq (the (transforms_of w' (get_dataset (self_train_dataset self) w'))) ts) \<and>
         (\<exists>w'. on_train_epoch_start (hd (callbacks (trainer cuda a))) (deficit_epoch a)
                  (initial_world a ws) = Inr w' \<and>
            transforms_of w' (train_dataset w')
              = Some [RandomHorizontalFlip (1 / 2), RandomAffine 0 (4 / 32, 4 / 32), ToTensor,
                      Normalize cifar10_mean cifar10_std])"
proof
  let ?w' = "print (''Removed DownUpSampleTransform at epoch '' @ str_int (t0 self) @ ''.'')
           (set_transform (self_train_dataset self) (Some (length (composes w)))
              (w\<lparr>composes := composes w @ [new_transforms ts]\<rparr>))"
  have run: "on_train_epoch_start self (t0 self) w = Inr ?w'"
    by (rule hook_at_t0 [OF assms])
  have p: "transforms_of ?w' (get_dataset (self_train_dataset self) ?w') = Some (new_transforms ts)"
    by (rule transforms_of_fired)
  show "\<exists>w'. on_train_epoch_start self (t0 self) w = Inr w' \<and>
            transforms_of w' (get_dataset (self_train_dataset self) w')
              = Some (filter (\<lambda>t. \<not> isinstance_DownUpSampleTransform t) ts) \<and>
            \<not> list_ex isinstance_DownUpSampleTransform
                 (the (transforms_of w' (get_dataset (self_train_dataset self) w'))) \<and>
            subseq (the (transforms_of w' (get_dataset (self_train_dataset self) w'))) ts"
    using run p new_transforms_no_blur [of ts] new_transforms_subseq [of ts]
    by (simp add: new_transforms_filter [symmetric])
next
  let ?cb = "hd (callbacks (trainer cuda a))"
  let ?w = "initial_world a ws"
  let ?w' = "print (''Removed DownUpSampleTransform at epoch '' @ str_int (t0 ?cb) @ ''.'')
           (set_transform (self_train_dataset ?cb) (Some (length (composes ?w)))
              (?w\<lparr>composes := composes ?w @ [new_transforms train_transforms]\<rparr>))"
  have cb: "t0 ?cb = deficit_epoch a" "self_train_dataset ?cb = TrainDataset"
    by (simp_all add: script_callback)
  have pre: "transforms_of ?w (get_dataset (self_train_dataset ?cb) ?w) = Some train_transforms"
    using initial_train_pipeline [of a ws] cb by simp
  have run: "on_train_epoch_start ?cb (deficit_epoch a) ?w = Inr ?w'"
    using hook_at_t0 [OF pre] cb by simp
  have "transforms_of ?w' (get_dataset (self_train_dataset ?cb) ?w') = Some (new_transforms train_transforms)"
    by (rule transforms_of_fired)
  then have p: "transforms_of ?w' (train_dataset ?w') = Some (new_transforms train_transforms)"
    using cb by simp
  show "\<exists>w'. on_train_epoch_start ?cb (deficit_epoch a) ?w = Inr w' \<and>
            transforms_of w' (train_dataset w')
              = Some [RandomHorizontalFlip (1 / 2), RandomAffine 0 (4 / 32, 4 / 32), ToTensor,
                      Normalize cifar10_mean cifar10_std]"
    using run p by (simp add: new_transforms_train RandomHorizontalFlip_default_def)
qed

theorem firing_drops_blur_keeps_order_witness:
  "\<exists>w'. on_train_epoch_start \<lparr> t0 = 3, self_train_dataset = TrainDataset \<rparr> 3
           \<lparr> composes = [[DownUpSampleTransform, ToTensor, DownUpSampleTransform,
                          RandomHorizontalFlip (1 / 2), DownUpSampleTransform]],
             train_dataset = \<lparr> root_dir = ''./data'', train = True, transform = Some 0 \<rparr>,
             val_dataset = \<lparr> root_dir = ''./data'', train = False, transform = None \<rparr>,
             hparams = default_args, parameters = [], stdout = [] \<rparr> = Inr w' \<and>
         transforms_of w' (train_dataset w') = Some [ToTensor, RandomHorizontalFlip (1 / 2)]"
proof -
  let ?w = "\<lparr> composes = [[DownUpSampleTransform, ToTensor, DownUpSampleTransform,
                          RandomHorizontalFlip (1 / 2), DownUpSampleTransform]],
             train_dataset = \<lparr> root_dir = ''./data'', train = True, transform = Some 0 \<rparr>,
             val_dataset = \<lparr> root_dir = ''./data'', train = False, transform = None \<rparr>,
             hparams = default_args, parameters = [], stdout = [] \<rparr>"
  let ?cb = "\<lparr> t0 = 3, self_train_dataset = TrainDataset \<rparr>"
  have pre: "transforms_of ?w (get_dataset (self_train_dataset ?cb) ?w)
               = Some [DownUpSampleTransform, ToTensor, DownUpSampleTransform,
                       RandomHorizontalFlip (1 / 2), DownUpSampleTransform]"
    by (simp add: transforms_of_def)
  from firing_drops_blur_keeps_order [OF pre, of True default_args "[]"]
  show ?thesis by auto
qed

text \<open>
  Claim C9. Removing the blur-resample steps is idempotent: on a pipeline without such a
  step it changes nothing, so removing twice is removing once, and after the hook has
  fired, firing it again leaves the dataset with the same sequence of steps.
\<close>
theorem removal_idempotent:
  "new_transforms (new_transforms ts) = new_transforms ts \<and>
   (\<not> list_ex isinstance_DownUpSampleTransform ts \<longrightarrow> new_transforms ts = ts) \<and>
   (on_train_epoch_start self (t0 self) w = Inr w1 \<longrightarrow>
      (\<exists>w2. on_train_epoch_start self (t0 self) w1 = Inr w2 \<and>
         transforms_of w2 (get_dataset (self_train_dataset self) w2)
           = transforms_of w1 (get_dataset (self_train_dataset self) w1)))"
proof (intro conjI impI)
  show "new_transforms (new_transforms ts) = new_transforms ts"
    by (rule new_transforms_id [OF new_transforms_no_blur])
next
  assume "\<not> list_ex isinstance_DownUpSampleTransform ts"
  then show "new_transforms ts = ts" by (rule new_transforms_id)
next
  assume run1: "on_train_epoch_start self (t0 self) w = Inr w1"
  let ?d = "self_train_dataset self"
  let ?s = "''Removed DownUpSampleTransform at epoch '' @ str_int (t0 self) @ ''.''"
  from hook_result_cases [OF run1] obtain us where
    us: "transforms_of w (get_dataset ?d w) = Some us"
    and w1: "w1 = print ?s (set_transform ?d (Some (length (composes w)))
                   (w\<lparr>composes := composes w @ [new_transforms us]\<rparr>))"
    by auto
  have p1: "transforms_of w1 (get_dataset ?d w1) = Some (new_transforms us)"
    unfolding w1 by (rule transforms_of_fired)
  let ?w2 = "print ?s (set_transform ?d (Some (length (composes w1)))
                   (w1\<lparr>composes := composes w1 @ [new_transforms (new_transforms us)]\<rparr>))"
  have run2: "on_train_epoch_start self (t0 self) w1 = Inr ?w2"
    by (rule hook_at_t0 [OF p1])
  have p2: "transforms_of ?w2 (get_dataset ?d ?w2) = Some (new_transforms (new_transforms us))"
    by (rule transforms_of_fired)
  have "new_transforms (new_transforms us) = new_transforms us"
    by (rule new_transforms_id [OF new_transforms_no_blur])
  then show "\<exists>w2. on_train_epoch_start self (t0 self) w1 = Inr w2 \<and>
         transforms_of w2 (get_dataset ?d w2) = transforms_of w1 (get_dataset ?d w1)"
    using run2 p1 p2 by simp
qed

theorem removal_idempotent_witness:
  "new_transforms test_transforms = test_transforms \<and>
   (\<exists>w1 w2. on_train_epoch_start \<lparr> t0 = 0, self_train_dataset = TrainDataset \<rparr> 0
                (initial_world default_args []) = Inr w1 \<and>
            on_train_epoch_start \<lparr> t0 = 0, self_train_dataset = TrainDataset \<rparr> 0 w1 = Inr w2 \<and>
            transforms_of w2 (train_dataset w2) = transforms_of w1 (train_dataset w1) \<and>
            transforms_of w1 (train_dataset w1) = Some (new_transforms train_transforms))"
proof -
  let ?cb = "\<lparr> t0 = 0, self_train_dataset = TrainDataset \<rparr>"
  let ?w = "initial_world default_args []"
  let ?w1 = "print (''Removed DownUpSampleTransform at epoch '' @ str_int (t0 ?cb) @ ''.'')
           (set_transform (self_train_dataset ?cb) (Some (length (composes ?w)))
              (?w\<lparr>composes := composes ?w @ [new_transforms train_transforms]\<rparr>))"
  have pre: "transforms_of ?w (get_dataset (self_train_dataset ?cb) ?w) = Some train_transforms"
    using initial_train_pipeline [of default_args "[]"] by simp
  have run1: "on_train_epoch_start ?cb (t0 ?cb) ?w = Inr ?w1"
    by (rule hook_at_t0 [OF pre])
  have p1: "transforms_of ?w1 (get_dataset (self_train_dataset ?cb) ?w1)
              = Some (new_transforms train_transforms)"
    by (rule transforms_of_fired)
  have nb: "\<not> list_ex isinstance_DownUpSampleTransform test_transforms"
    by (simp add: test_transforms_def)
  from removal_idempotent [of test_transforms ?cb ?w ?w1] run1 nb
  obtain w2 where "new_transforms test_transforms = test_transforms"
    and "on_train_epoch_start ?cb (t0 ?cb) ?w1 = Inr w2"
    and "transforms_of w2 (get_dataset (self_train_dataset ?cb) w2)
           = transforms_of ?w1 (get_dataset (self_train_dataset ?cb) ?w1)"
    by blast
  with run1 p1 show ?thesis
    by (intro conjI exI [of _ ?w1] exI [of _ w2]) simp_all
qed

lemma script_callback_mem:
  "self \<in> set (callbacks (trainer cuda a)) \<Longrightarrow>
     self = \<lparr> t0 = deficit_epoch a, self_train_dataset = TrainDataset \<rparr>"
  by (simp add: script_callback)

text \<open>
  Claim C10. The callback the script registers changes nothing but the training dataset's
  \<open>transform\<close> field: whatever the epoch, the evaluation dataset and its pipeline, the
  model parameters, the settings, every pipeline object that existed before, and the other
  fields of the training dataset are as they were.
\<close>
theorem hook_changes_only_train_transform:
  assumes cb: "self \<in> set (callbacks (trainer cuda a))"
    and run: "on_train_epoch_start self current_epoch w = Inr w'"
    and al: "allocated w (val_dataset w)"
  shows "val_dataset w' = val_dataset w \<and>
         transforms_of w' (val_dataset w') = transforms_of w (val_dataset w) \<and>
         parameters w' = parameters w \<and>
         hparams w' = hparams w \<and>
         take (length (composes w)) (composes w') = composes w \<and>
         train_dataset w' = (train_dataset w)\<lparr>transform := transform (train_dataset w')\<rparr>"
proof -
  have d: "self_train_dataset self = TrainDataset"
    using script_callback_mem [OF cb] by simp
  from hook_result_cases [OF run] show ?thesis
  proof
    assume "current_epoch \<noteq> t0 self \<and> w' = w"
    then show ?thesis by simp
  next
    assume "current_epoch = t0 self \<and> (\<exists>ts. transforms_of w (get_dataset (self_train_dataset self) w) = Some ts \<and>
            w' = print (''Removed DownUpSampleTransform at epoch '' @ str_int (t0 self) @ ''.'')
                  (set_transform (self_train_dataset self) (Some (length (composes w)))
                     (w\<lparr>composes := composes w @ [new_transforms ts]\<rparr>)))"
    then obtain ts where
      w': "w' = print (''Removed DownUpSampleTransform at epoch '' @ str_int (t0 self) @ ''.'')
                  (set_transform TrainDataset (Some (length (composes w)))
                     (w\<lparr>composes := composes w @ [new_transforms ts]\<rparr>))"
      using d by auto
    have v: "val_dataset w' = val_dataset w" and p: "parameters w' = parameters w"
      and h: "hparams w' = hparams w" and c: "composes w' = composes w @ [new_transforms ts]"
      and t: "train_dataset w' = (train_dataset w)\<lparr>transform := transform (train_dataset w')\<rparr>"
      by (simp_all add: w' print_def)
    have "transforms_of w' (val_dataset w') = transforms_of w (val_dataset w)"
      using al by (auto simp: transforms_of_def allocated_def v c nth_append split: option.splits)
    then show ?thesis using v p h c t by simp
  qed
qed

theorem hook_changes_only_train_transform_witness:
  "\<exists>w'. on_train_epoch_start (hd (callbacks (trainer False default_args))) 0
           (initial_world default_args [1, 2]) = Inr w' \<and>
     transforms_of w' (val_dataset w') = Some test_transforms \<and>
     parameters w' = [1, 2] \<and> hparams w' = default_args \<and>
     take 2 (composes w') = [train_transforms, test_transforms] \<and>
     transform (train_dataset w') = Some 2"
proof -
  let ?cb = "hd (callbacks (trainer False default_args))"
  let ?w = "initial_world default_args [1, 2]"
  have m: "?cb \<in> set (callbacks (trainer False default_args))"
    by (simp add: script_callback)
  have al: "allocated ?w (val_dataset ?w)"
    by (simp add: allocated_def initial_world_def)
  have cb: "t0 ?cb = 0" "self_train_dataset ?cb = TrainDataset"
    by (simp_all add: script_callback default_args_def)
  have pre: "transforms_of ?w (get_dataset (self_train_dataset ?cb) ?w) = Some train_transforms"
    using initial_train_pipeline [of default_args "[1, 2]"] cb by simp
  have "\<exists>w'. on_train_epoch_start ?cb 0 ?w = Inr w' \<and> transform (train_dataset w') = Some 2"
    using hook_at_t0 [OF pre] cb by (simp add: print_def initial_world_def)
  then obtain w' where run: "on_train_epoch_start ?cb 0 ?w = Inr w'"
    and t: "transform (train_dataset w') = Some 2"
    by blast
  have f: "transforms_of ?w (val_dataset ?w) = Some test_transforms"
    "parameters ?w = [1, 2]" "hparams ?w = default_args"
    "composes ?w = [train_transforms, test_transforms]"
    by (simp_all add: initial_world_def transforms_of_def)
  note frame = hook_changes_only_train_transform [OF m run al]
  from frame have "transforms_of w' (val_dataset w') = transforms_of ?w (val_dataset ?w)"
    by blast
  then have a: "transforms_of w' (val_dataset w') = Some test_transforms"
    by (simp only: f)
  from frame have b: "parameters w' = [1, 2]" "hparams w' = default_args"
    by (simp_all only: f)
  from frame have "take (length (composes ?w)) (composes w') = composes ?w"
    by blast
  then have c: "take 2 (composes w') = [train_transforms, test_transforms]"
    by (simp add: f numeral_2_eq_2)
  show ?thesis
    using run a b c t by blast
qed

section \<open>The pipelines as constructed\<close>

text \<open>
  Claim C5. The training pipeline is, in this order, a horizontal flip with probability
  1/2, a random translation by up to 4/32 of the image size (4 pixels on a 32 by 32 image),
  the tensor conversion, the blur-resample step and the normalisation with the fixed
  CIFAR-10 constants; the evaluation pipeline is the tensor conversion and the same
  normalisation, with no augmentation and no blur.
\<close>
theorem pipelines_as_constructed:
  "train_transforms =
     [RandomHorizontalFlip (1 / 2), RandomAffine 0 (4 / 32, 4 / 32), ToTensor,
      DownUpSampleTransform,
      Normalize [4914 / 10000, 4822 / 10000, 4465 / 10000] [247 / 1000, 243 / 1000, 261 / 1000]] \<and>
   max_translation (train_transforms ! 1) (32, 32) = (4, 4) \<and>
   test_transforms =
     [ToTensor,
      Normalize [4914 / 10000, 4822 / 10000, 4465 / 10000] [247 / 1000, 243 / 1000, 261 / 1000]] \<and>
   \<not> list_ex is_augmentation test_transforms \<and>
   \<not> list_ex isinstance_DownUpSampleTransform test_transforms"
  by (simp add: train_transforms_def test_transforms_def RandomHorizontalFlip_default_def
      cifar10_mean_def cifar10_std_def)

section \<open>Driver configuration and learning-rate schedule: properties\<close>

lemma step_lr_iterate:
  "(scheduler_step (StepLR 1 g) ^^ n) \<lparr> last_epoch = e, current_lr = l \<rparr>
     = \<lparr> last_epoch = e + n, current_lr = l * g ^ n \<rparr>"
  by (induction n) (simp_all add: Let_def)

lemma lr_at_epoch_closed: "lr_at_epoch hp n = lr hp * (97 / 100) ^ n"
  using step_lr_iterate [where g = "97 / 100" and n = n and e = 0 and l = "lr hp"]
  by (simp add: lr_at_epoch_def configure_optimizers_def)

text \<open>
  Claim C7. The schedule the module builds is a step schedule with step size 1 and the
  fixed factor 0.97: the learning rate starts at the configured \<open>lr\<close> and is multiplied by
  0.97 after every epoch, for any number of epochs. The \<open>gamma\<close> option (default 0.1) is not
  read: changing it changes neither the optimizer, nor the schedule, nor any epoch's rate.
\<close>

theorem schedule_decays_by_fixed_factor:
  "configure_optimizers hp = ([SGD (lr hp) (momentum hp) (weight_decay hp)], [StepLR 1 (97 / 100)]) \<and>
   configure_optimizers (hp\<lparr>gamma := g\<rparr>) = configure_optimizers hp \<and>
   lr_at_epoch hp 0 = lr hp \<and>
   lr_at_epoch hp (Suc n) = lr_at_epoch hp n * (97 / 100) \<and>
   lr_at_epoch (hp\<lparr>gamma := g\<rparr>) n = lr_at_epoch hp n \<and>
   gamma default_args = 1 / 10"
  by (simp add: lr_at_epoch_closed) (simp add: configure_optimizers_def default_args_def)

subsection \<open>The epoch loop\<close>









section \<open>The blur-resample transform: properties\<close>

lemma source_index_bound:
  assumes "0 < n" "0 < m" "d < m"
  shows "source_index n m d < real n"
proof -
  have "real d + 1 / 2 < real m" using assms by simp
  then have "real n / real m * (real d + 1 / 2) < real n / real m * real m"
    using assms by (intro mult_strict_left_mono) simp_all
  also have "\<dots> = real n" using assms by simp
  finally have "real n / real m * (real d + 1 / 2) - 1 / 2 < real n" by simp
  then show ?thesis using assms by (simp add: source_index_def)
qed

lemma index0_bound:
  assumes "0 < n" "0 < m" "d < m"
  shows "index0 n m d < n"
proof -
  have "\<lfloor>source_index n m d\<rfloor> < int n"
    using source_index_bound [OF assms] by (simp add: floor_less_iff)
  then show ?thesis using assms by (simp add: index0_def nat_less_iff)
qed

lemma index1_bound:
  assumes "0 < n" "0 < m" "d < m"
  shows "index1 n m d < n"
  using index0_bound [OF assms] by (auto simp: index1_def Let_def)

lemma flat_index_bound:
  assumes "p < P" "y < ih" "x < iw"
  shows "p * ih * iw + y * iw + x < P * ih * (iw :: nat)"
proof -
  have "y * iw + x < Suc y * iw" using assms by simp
  also have "\<dots> \<le> ih * iw" using assms by (intro mult_le_mono1) simp
  finally have "p * ih * iw + y * iw + x < Suc p * (ih * iw)" by simp
  also have "\<dots> \<le> P * (ih * iw)" using assms by (intro mult_le_mono1) simp
  finally show ?thesis by (simp add: mult.assoc)
qed

lemma bilinear_reads_in_range:
  assumes len: "length xs = P * ih * iw"
    and pos: "0 < ih" "0 < iw" "0 < oh" "0 < ow"
    and idx: "p < P" "oy < oh" "ox < ow"
  shows "p * ih * iw + index0 ih oh oy * iw + index0 iw ow ox < length xs \<and>
         p * ih * iw + index0 ih oh oy * iw + index1 iw ow ox < length xs \<and>
         p * ih * iw + index1 ih oh oy * iw + index0 iw ow ox < length xs \<and>
         p * ih * iw + index1 ih oh oy * iw + index1 iw ow ox < length xs"
proof -
  have y: "index0 ih oh oy < ih" "index1 ih oh oy < ih"
    using pos idx by (simp_all add: index0_bound index1_bound)
  have x: "index0 iw ow ox < iw" "index1 iw ow ox < iw"
    using pos idx by (simp_all add: index0_bound index1_bound)
  show ?thesis
    unfolding len using flat_index_bound [OF idx(1)] x y by simp
qed

lemma length_concat_const:
  "(\<And>x. x \<in> set xs \<Longrightarrow> length (f x) = k) \<Longrightarrow> length (concat (map f xs)) = length xs * k"
  by (induction xs) simp_all

lemma length_upsample_bilinear2d:
  "length (upsample_bilinear2d planes ih iw oh ow xs) = planes * oh * ow"
proof -
  have row: "\<And>p oy. length (map (\<lambda>ox. bilinear_pixel xs (p * ih * iw) ih iw oh ow oy ox) [0..<ow]) = ow"
    by simp
  have plane: "\<And>p. length (concat (map (\<lambda>oy.
         map (\<lambda>ox. bilinear_pixel xs (p * ih * iw) ih iw oh ow oy ox) [0..<ow]) [0..<oh])) = oh * ow"
    by (subst length_concat_const [where k = ow]) simp_all
  show ?thesis
    unfolding upsample_bilinear2d_def
    by (subst length_concat_const [where k = "oh * ow"]) (simp_all add: plane)
qed

lemma interpolate_ok:
  assumes "shape t = [n, c, ih, iw]" "0 < c" "0 < ih" "0 < iw" "0 < oh" "0 < ow"
    and "storage t < length h"
  shows "interpolate h t (oh, ow) =
           Inr (h @ [upsample_bilinear2d (n * c) ih iw oh ow (h ! storage t)],
                \<lparr> storage = length h, shape = [n, c, oh, ow] \<rparr>)"
  using assms by (simp add: interpolate_def)

lemma call_ok:
  assumes "image_tensor h img C H W"
  shows "DownUpSampleTransform_call h img =
           Inr (h @ [upsample_bilinear2d C H W 8 8 (data_of h img),
                     upsample_bilinear2d C 8 8 32 32 (upsample_bilinear2d C H W 8 8 (data_of h img))],
                \<lparr> storage = length h + 1, shape = [C, 32, 32] \<rparr>)"
  using assms
  by (simp add: DownUpSampleTransform_call_def interpolate_def unsqueeze0_def squeeze0_def
      image_tensor_def data_of_def)

lemma call_shape:
  assumes "image_tensor h img C H W"
  shows "result_shape (DownUpSampleTransform_call h img) = Some [C, 32, 32]"
  by (simp add: call_ok [OF assms])

text \<open>
  Claim C3, as the code has it. On a well-formed \<open>3 \<times> H \<times> W\<close> tensor the transform
  returns a well-formed \<open>3 \<times> 32 \<times> 32\<close> tensor, whose data is the input resampled
  bilinearly (no corner alignment) to \<open>8 \<times> 8\<close> and then to the fixed size \<open>32 \<times> 32\<close>. The
  result has the shape of the input exactly when \<open>H = W = 32\<close>.
\<close>
theorem blur_resample_returns_32x32:
  assumes "image_tensor h img 3 H W"
  shows "\<exists>h' out. DownUpSampleTransform_call h img = Inr (h', out) \<and>
           image_tensor h' out 3 32 32 \<and>
           data_of h' out =
             upsample_bilinear2d 3 8 8 32 32 (upsample_bilinear2d 3 H W 8 8 (data_of h img)) \<and>
           (shape out = shape img \<longleftrightarrow> H = 32 \<and> W = 32)"
proof -
  let ?d8 = "upsample_bilinear2d 3 H W 8 8 (data_of h img)"
  let ?d32 = "upsample_bilinear2d 3 8 8 32 32 ?d8"
  let ?h' = "h @ [?d8, ?d32]"
  let ?out = "\<lparr> storage = length h + 1, shape = [3, 32, 32] \<rparr>"
  have run: "DownUpSampleTransform_call h img = Inr (?h', ?out)"
    by (rule call_ok [OF assms])
  have d: "data_of ?h' ?out = ?d32"
    by (simp add: data_of_def nth_append)
  have wf: "image_tensor ?h' ?out 3 32 32"
    using d by (simp add: image_tensor_def data_of_def length_upsample_bilinear2d)
  have sh: "shape ?out = shape img \<longleftrightarrow> H = 32 \<and> W = 32"
    using assms by (auto simp: image_tensor_def)
  show ?thesis using run d wf sh by blast
qed

theorem blur_resample_returns_32x32_witness:
  "\<exists>h' out. DownUpSampleTransform_call [replicate 3072 (1 / 2)] \<lparr> storage = 0, shape = [3, 32, 32] \<rparr>
              = Inr (h', out) \<and>
            image_tensor h' out 3 32 32 \<and>
            shape out = [3, 32, 32]"
proof -
  have wf: "image_tensor [replicate 3072 (1 / 2)] \<lparr> storage = 0, shape = [3, 32, 32] \<rparr> 3 32 32"
    by (simp add: image_tensor_def)
  from blur_resample_returns_32x32 [OF wf] show ?thesis
    by (auto simp: image_tensor_def)
qed

text \<open>
  On a \<open>3 \<times> 64 \<times> 64\<close> image the result is \<open>3 \<times> 32 \<times> 32\<close>: the shape is not preserved.
\<close>

theorem blur_resample_shape_counterexample:
  "image_tensor [replicate 12288 0] \<lparr> storage = 0, shape = [3, 64, 64] \<rparr> 3 64 64 \<and>
   result_shape (DownUpSampleTransform_call [replicate 12288 0] \<lparr> storage = 0, shape = [3, 64, 64] \<rparr>)
     = Some [3, 32, 32]"
proof -
  have wf: "image_tensor [replicate 12288 0] \<lparr> storage = 0, shape = [3, 64, 64] \<rparr> 3 64 64"
    by (simp add: image_tensor_def)
  from wf call_shape [OF wf] show ?thesis by simp
qed

text \<open>
  Claim C4. On a well-formed \<open>C \<times> H \<times> W\<close> tensor the transform raises no error; every
  storage that existed before the call, the input's among them, holds afterwards what it
  held before; and the result depends on the input's shape and data alone: a call in any
  other store on a tensor with the same shape and data returns a tensor with the same
  shape and data.
\<close>
theorem blur_resample_pure:
  assumes "image_tensor h img C H W"
  shows "\<exists>h' out. DownUpSampleTransform_call h img = Inr (h', out) \<and>
           take (length h) h' = h \<and>
           data_of h' img = data_of h img \<and>
           (\<forall>h2 img2. image_tensor h2 img2 C H W \<and> data_of h2 img2 = data_of h img \<longrightarrow>
              (\<exists>h2' out2. DownUpSampleTransform_call h2 img2 = Inr (h2', out2) \<and>
                 shape out2 = shape out \<and> data_of h2' out2 = data_of h' out))"
proof -
  let ?d8 = "upsample_bilinear2d C H W 8 8 (data_of h img)"
  let ?d32 = "upsample_bilinear2d C 8 8 32 32 ?d8"
  let ?h' = "h @ [?d8, ?d32]"
  let ?out = "\<lparr> storage = length h + 1, shape = [C, 32, 32] \<rparr>"
  have run: "DownUpSampleTransform_call h img = Inr (?h', ?out)"
    by (rule call_ok [OF assms])
  have keep: "take (length h) ?h' = h"
    by simp
  have "storage img < length h"
    using assms by (simp add: image_tensor_def)
  then have same: "data_of ?h' img = data_of h img"
    by (simp add: data_of_def nth_append)
  have d: "data_of ?h' ?out = ?d32"
    by (simp add: data_of_def nth_append)
  have det: "\<exists>h2' out2. DownUpSampleTransform_call h2 img2 = Inr (h2', out2) \<and>
                 shape out2 = shape ?out \<and> data_of h2' out2 = data_of ?h' ?out"
    if "image_tensor h2 img2 C H W \<and> data_of h2 img2 = data_of h img" for h2 img2
  proof -
    let ?k' = "h2 @ [?d8, ?d32]"
    let ?out2 = "\<lparr> storage = length h2 + 1, shape = [C, 32, 32] \<rparr>"
    have "DownUpSampleTransform_call h2 img2 = Inr (?k', ?out2)"
      using call_ok [of h2 img2 C H W] that by simp
    moreover have "data_of ?k' ?out2 = ?d32"
      by (simp add: data_of_def nth_append)
    ultimately show ?thesis using d by simp
  qed
  show ?thesis
    using run keep same det by blast
qed

theorem blur_resample_pure_witness:
  "\<exists>h' out. DownUpSampleTransform_call [[1, 2, 3, 4]] \<lparr> storage = 0, shape = [1, 2, 2] \<rparr>
              = Inr (h', out) \<and>
            take 1 h' = [[1, 2, 3, 4]] \<and>
            (\<exists>h2' out2. DownUpSampleTransform_call [[], [1, 2, 3, 4]] \<lparr> storage = 1, shape = [1, 2, 2] \<rparr>
                = Inr (h2', out2) \<and>
               shape out2 = shape out \<and> data_of h2' out2 = data_of h' out)"
proof -
  have wf: "image_tensor [[1, 2, 3, 4]] \<lparr> storage = 0, shape = [1, 2, 2] \<rparr> 1 2 2"
    by (simp add: image_tensor_def)
  have wf2: "image_tensor [[], [1, 2, 3, 4]] \<lparr> storage = 1, shape = [1, 2, 2] \<rparr> 1 2 2 \<and>
             data_of [[], [1, 2, 3, 4]] \<lparr> storage = 1, shape = [1, 2, 2] \<rparr>
               = data_of [[1, 2, 3, 4]] \<lparr> storage = 0, shape = [1, 2, 2] \<rparr>"
    by (simp add: image_tensor_def data_of_def)
  from blur_resample_pure [OF wf] obtain h' out where
    run: "DownUpSampleTransform_call [[1, 2, 3, 4]] \<lparr> storage = 0, shape = [1, 2, 2] \<rparr> = Inr (h', out)"
    and keep: "take (length [[1, 2, 3, 4 :: real]]) h' = [[1, 2, 3, 4]]"
    and det: "\<forall>h2 img2. image_tensor h2 img2 1 2 2 \<and>
                data_of h2 img2 = data_of [[1, 2, 3, 4]] \<lparr> storage = 0, shape = [1, 2, 2] \<rparr> \<longrightarrow>
              (\<exists>h2' out2. DownUpSampleTransform_call h2 img2 = Inr (h2', out2) \<and>
                 shape out2 = shape out \<and> data_of h2' out2 = data_of h' out)"
    by blast
  from keep have keep1: "take 1 h' = [[1, 2, 3, 4]]"
    by simp
  from det wf2 have "\<exists>h2' out2. DownUpSampleTransform_call [[], [1, 2, 3, 4]]
                \<lparr> storage = 1, shape = [1, 2, 2] \<rparr> = Inr (h2', out2) \<and>
               shape out2 = shape out \<and> data_of h2' out2 = data_of h' out"
    by blast
  with run keep1 show ?thesis by blast
qed

section \<open>The training module: properties\<close>

lemma argmax_from_first_max:
  assumes "ys = pre @ xs" "best < length pre" "bv = ys ! best"
    and "\<forall>j < length pre. ys ! j \<le> bv" "\<forall>j < best. ys ! j < bv"
  shows "first_max ys (argmax_from (length pre) best bv xs)"
  using assms
proof (induction xs arbitrary: pre best bv)
  case Nil
  then show ?case by (simp add: first_max_def)
next
  case (Cons x xs)
  have ys: "ys = (pre @ [x]) @ xs" using Cons.prems(1) by simp
  have x: "ys ! length pre = x" using Cons.prems(1) by simp
  show ?case
  proof (cases "bv < x")
    case True
    have "first_max ys (argmax_from (length (pre @ [x])) (length pre) x xs)"
    proof (rule Cons.IH [OF ys])
      show "length pre < length (pre @ [x])" by simp
      show "x = ys ! length pre" using x by simp
      show "\<forall>j<length (pre @ [x]). ys ! j \<le> x"
        using Cons.prems(4) True x by (auto simp: less_Suc_eq)
      show "\<forall>j<length pre. ys ! j < x"
        using Cons.prems(4) True by auto
    qed
    then show ?thesis using True by simp
  next
    case False
    have "first_max ys (argmax_from (length (pre @ [x])) best bv xs)"
    proof (rule Cons.IH [OF ys])
      show "best < length (pre @ [x])" using Cons.prems(2) by simp
      show "bv = ys ! best" by (rule Cons.prems(3))
      show "\<forall>j<length (pre @ [x]). ys ! j \<le> bv"
        using Cons.prems(4) False x by (auto simp: less_Suc_eq)
      show "\<forall>j<best. ys ! j < bv" by (rule Cons.prems(5))
    qed
    then show ?thesis using False by simp
  qed
qed

lemma argmax_first_max:
  assumes "row \<noteq> []"
  shows "first_max row (argmax row)"
proof -
  obtain x xs where row: "row = x # xs" using assms by (cases row) auto
  have "first_max row (argmax_from (length [x]) 0 (row ! 0) xs)"
    by (rule argmax_from_first_max [where pre = "[x]"]) (simp_all add: row)
  then show ?thesis by (simp add: row)
qed

lemma sum_of_bool_count:
  "sum_list (map (\<lambda>x. of_bool (P x)) xs) = real (length (filter P xs))"
  by (induction xs) simp_all

lemma CrossEntropyLoss_ok:
  assumes "logits_for outputs targets C"
  shows "CrossEntropyLoss outputs targets = Inr (mean (map sample_loss (zip outputs targets)))"
proof -
  have len: "length outputs = length targets" using assms by (simp add: logits_for_def)
  have rng: "0 \<le> t \<and> t < int (length row)" if "(row, t) \<in> set (zip outputs targets)" for row t
  proof -
    have "row \<in> set outputs" "t \<in> set targets"
      using that by (auto dest: set_zip_leftD set_zip_rightD)
    then show ?thesis using assms by (simp add: logits_for_def)
  qed
  have no: "\<not> list_ex (\<lambda>(row, t). t \<noteq> - 100 \<and> (t < 0 \<or> int (length row) \<le> t)) (zip outputs targets)"
    using rng by (fastforce simp: list_ex_iff)
  have all: "filter (\<lambda>(row, t). t \<noteq> - 100) (zip outputs targets) = zip outputs targets"
    using rng by (fastforce simp: filter_id_conv)
  show ?thesis using len no all by (simp add: CrossEntropyLoss_def)
qed

lemma batch_accuracy_ok:
  assumes "logits_for outputs targets C"
  shows "batch_accuracy outputs targets =
           Inr (mean (map (\<lambda>(row, t). of_bool (int (argmax row) = t)) (zip outputs targets)))"
proof -
  have len: "length outputs = length targets" using assms by (simp add: logits_for_def)
  have "\<forall>row \<in> set outputs. row \<noteq> []" using assms by (auto simp: logits_for_def)
  then have ne: "\<not> list_ex (\<lambda>row. row = []) outputs" by (simp add: list_ex_iff)
  have p: "argmax_dim1 outputs = Inr (map argmax outputs)"
    using ne by (simp add: argmax_dim1_def)
  have e: "eq_elementwise (map argmax outputs) targets
             = Inr (map (\<lambda>(p, t). int p = t) (zip (map argmax outputs) targets))"
    using len by (simp add: eq_elementwise_def)
  have z: "to_float (map (\<lambda>(p, t). int p = t) (zip (map argmax outputs) targets))
             = map (\<lambda>(row, t). of_bool (int (argmax row) = t)) (zip outputs targets)"
    unfolding to_float_def zip_map1 by (simp add: case_prod_unfold)
  show ?thesis
    by (simp only: batch_accuracy_def p e z sum.case)
qed

lemma mean_of_hits:
  assumes "xs \<noteq> []"
  shows "mean (map (\<lambda>x. of_bool (P x)) xs) = Value (real (length (filter P xs)) / real (length xs))"
  using assms by (simp add: mean_def sum_of_bool_count)

lemma mean_nonempty:
  "xs \<noteq> [] \<Longrightarrow> mean xs = Value (sum_list xs / real (length xs))"
  by (simp add: mean_def)

lemma neg_ln_softmax_2:
  fixes a b :: real
  shows "- ln (exp a / (exp a + exp b)) = ln (1 + exp (b - a))"
proof -
  have pos: "0 < exp a + exp b"
    by (simp add: add_pos_pos)
  have "1 + exp (b - a) = (exp a + exp b) / exp a"
    by (simp add: exp_diff add_divide_distrib)
  then have "inverse (1 + exp (b - a)) = exp a / (exp a + exp b)"
    by (simp add: inverse_eq_divide)
  moreover have "0 < 1 + exp (b - a)"
    by (simp add: add_pos_pos)
  ultimately show ?thesis
    using ln_inverse [of "1 + exp (b - a)"] by simp
qed

text \<open>
  Claim C8. On a well-formed batch, the training step runs the network on the images,
  computes the cross-entropy loss of its outputs (the mean over the batch of the negative
  log of the softmax probability of the label) and their top-1 accuracy (the fraction of
  samples whose first maximal logit is at the label), appends exactly the two metrics
  \<open>train_loss\<close> and \<open>train_acc\<close> to the log and returns the loss; the validation step
  computes the same loss and accuracy, appends exactly \<open>val_loss\<close> and \<open>val_acc\<close>, and
  returns nothing. On an empty batch both metrics are not-a-number.
\<close>

theorem steps_log_loss_and_accuracy:
  assumes crit: "criterion self = CrossEntropyLoss"
    and wf: "logits_for (model self images) targets C"
  shows "\<exists>loss acc.
           forward self images = model self images \<and>
           loss = (if targets = [] then NaN
                   else Value (sum_list (map (\<lambda>(row, t). - ln (exp (row ! nat t) / sum_list (map exp row)))
                                          (zip (model self images) targets))
                               / real (length targets))) \<and>
           acc = (if targets = [] then NaN
                  else Value (real (length (filter (\<lambda>(row, t). int (argmax row) = t)
                                              (zip (model self images) targets)))
                              / real (length targets))) \<and>
           (\<forall>row \<in> set (model self images). first_max row (argmax row)) \<and>
           training_step self (images, targets) batch_idx =
             Inr (loss, self\<lparr>logged := logged self @
                    [(''train_loss'', loss, False), (''train_acc'', acc, True)]\<rparr>) \<and>
           validation_step self (images, targets) batch_idx =
             Inr ((), self\<lparr>logged := logged self @
                    [(''val_loss'', loss, True), (''val_acc'', acc, True)]\<rparr>)"
proof -
  let ?out = "model self images"
  let ?z = "zip ?out targets"
  let ?loss = "mean (map sample_loss ?z)"
  let ?acc = "mean (map (\<lambda>(row, t). of_bool (int (argmax row) = t)) ?z)"
  have fw: "forward self images = ?out"
    by (simp add: forward_def)
  have l: "criterion self ?out targets = Inr ?loss"
    using CrossEntropyLoss_ok [OF wf] crit by simp
  have a: "batch_accuracy ?out targets = Inr ?acc"
    by (rule batch_accuracy_ok [OF wf])
  have top1: "\<forall>row \<in> set ?out. first_max row (argmax row)"
  proof
    fix row assume "row \<in> set ?out"
    then have "row \<noteq> []" using wf by (auto simp: logits_for_def)
    then show "first_max row (argmax row)" by (rule argmax_first_max)
  qed
  have len: "length ?out = length targets" using wf by (simp add: logits_for_def)
  have sl: "sample_loss = (\<lambda>(row, t). - ln (exp (row ! nat t) / sum_list (map exp row)))"
    by (simp add: sample_loss_def)
  have lossv: "?loss = (if targets = [] then NaN
                   else Value (sum_list (map (\<lambda>(row, t). - ln (exp (row ! nat t) / sum_list (map exp row))) ?z)
                               / real (length targets)))"
  proof (cases "targets = []")
    case True
    then show ?thesis by (simp add: mean_def)
  next
    case False
    then have ne: "map sample_loss ?z \<noteq> []" using len by (cases ?out; cases targets) simp_all
    have "?loss = Value (sum_list (map sample_loss ?z) / real (length (map sample_loss ?z)))"
      by (rule mean_nonempty [OF ne])
    then show ?thesis
      using False len by (simp add: sl)
  qed
  have accv: "?acc = (if targets = [] then NaN
                  else Value (real (length (filter (\<lambda>(row, t). int (argmax row) = t) ?z))
                              / real (length targets)))"
  proof (cases "targets = []")
    case True
    then show ?thesis by (simp add: mean_def)
  next
    case False
    then have ne: "?z \<noteq> []" using len by (cases ?out; cases targets) simp_all
    have "?acc = mean (map (\<lambda>x. of_bool ((\<lambda>(row, t). int (argmax row) = t) x)) ?z)"
      by (simp add: case_prod_unfold)
    also have "\<dots> = Value (real (length (filter (\<lambda>(row, t). int (argmax row) = t) ?z))
                     / real (length ?z))"
      by (rule mean_of_hits [OF ne])
    finally show ?thesis using False len by simp
  qed
  have tr: "training_step self (images, targets) batch_idx =
             Inr (?loss, self\<lparr>logged := logged self @
                    [(''train_loss'', ?loss, False), (''train_acc'', ?acc, True)]\<rparr>)"
    by (simp add: training_step_def Let_def fw l a self_log_def)
  have va: "validation_step self (images, targets) batch_idx =
             Inr ((), self\<lparr>logged := logged self @
                    [(''val_loss'', ?loss, True), (''val_acc'', ?acc, True)]\<rparr>)"
    by (simp add: validation_step_def Let_def fw l a self_log_def)
  show ?thesis
    using fw top1 tr va unfolding lossv accv by blast
qed

theorem steps_log_loss_and_accuracy_witness:
  "training_step (CIFAR10Classifier default_args (map (map (\<lambda>v. 2 * v))))
       ([[1 / 2, 0], [0, 1], [3 / 2, 3 / 2]], [0, 1, 1]) 0
     = Inr (Value ((ln (1 + exp (- 1)) + ln (1 + exp (- 2)) + ln 2) / 3),
            (CIFAR10Classifier default_args (map (map (\<lambda>v. 2 * v))))
              \<lparr>logged := [(''train_loss'', Value ((ln (1 + exp (- 1)) + ln (1 + exp (- 2)) + ln 2) / 3), False),
                          (''train_acc'', Value (2 / 3), True)]\<rparr>) \<and>
   validation_step (CIFAR10Classifier default_args (map (map (\<lambda>v. 2 * v))))
       ([[1 / 2, 0], [0, 1], [3 / 2, 3 / 2]], [0, 1, 1]) 0
     = Inr ((), (CIFAR10Classifier default_args (map (map (\<lambda>v. 2 * v))))
              \<lparr>logged := [(''val_loss'', Value ((ln (1 + exp (- 1)) + ln (1 + exp (- 2)) + ln 2) / 3), True),
                          (''val_acc'', Value (2 / 3), True)]\<rparr>)"
proof -
  let ?m = "CIFAR10Classifier default_args (map (map (\<lambda>v :: real. 2 * v)))"
  let ?x = "[[1 / 2, 0], [0, 1], [3 / 2, 3 / 2 :: real]]"
  let ?t = "[0, 1, 1 :: int]"
  have c: "criterion ?m = CrossEntropyLoss"
    by (simp add: CIFAR10Classifier_def)
  have f: "model ?m ?x = [[1, 0], [0, 2], [3, 3]]"
    by (simp add: CIFAR10Classifier_def)
  have w: "logits_for (model ?m ?x) ?t 2"
    unfolding f by (simp add: logits_for_def)
  have lg: "logged ?m = []"
    by (simp add: CIFAR10Classifier_def)
  have l1: "- ln (exp 1 / (exp 1 + 1)) = ln (1 + exp (- 1 :: real))"
    using neg_ln_softmax_2 [of 1 0] by simp
  have l2: "- ln (exp 2 / (1 + exp 2)) = ln (1 + exp (- 2 :: real))"
    using neg_ln_softmax_2 [of 2 0] by (simp add: add.commute)
  have l3: "- ln (exp 3 / (exp 3 + exp 3)) = ln (2 :: real)"
    using neg_ln_softmax_2 [of "3 :: real" 3] by simp
  have loss: "sum_list (map (\<lambda>(row, t). - ln (exp (row ! nat t) / sum_list (map exp row)))
                  (zip (model ?m ?x) ?t))
                = ln (1 + exp (- 1)) + ln (1 + exp (- 2)) + ln 2"
    unfolding f using l1 l2 l3 by simp
  have acc: "real (length (filter (\<lambda>(row, t). int (argmax row) = t) (zip (model ?m ?x) ?t))) = 2"
    unfolding f by simp
  from steps_log_loss_and_accuracy [OF c w, of 0]
  show ?thesis
    unfolding loss acc lg by simp
qed

end
